theory Spec2Isabelle
  imports Main "HOL-Library.Word"
begin

section \<open>The ledger contract \<open>GwasServiceFHE.sol\<close>\<close>

subsection \<open>Data model\<close>

text \<open>
  Solidity value types. An \<open>euint32\<close> is the FHE library's ciphertext handle, a
  \<open>bytes32\<close> the contract never looks into. A \<open>mapping\<close> is a total function: a key
  never written reads as the zero value of the value type.
\<close>

type_synonym uint256 = "256 word"
type_synonym uint32 = "32 word"
type_synonym address = "160 word"
type_synonym euint32 = "256 word"
type_synonym bytes = "8 word list"

record EncryptedGenomeData =
  id' :: uint256
  encryptedGenotype :: euint32
  encryptedPhenotype :: euint32
  institution :: address
  timestamp :: uint256

record AnalysisResult =
  encryptedPValue :: euint32
  encryptedOddsRatio :: euint32
  isRevealed :: bool

record contract_state =
  datasetCount :: uint256
  encryptedDatasets :: "uint256 \<Rightarrow> EncryptedGenomeData"
  analysisResults :: "uint256 \<Rightarrow> AnalysisResult"
  encryptedGeneCounts :: "uint256 \<Rightarrow> euint32"
  geneMarkers :: "uint256 list"
  requestToDatasetId :: "uint256 \<Rightarrow> uint256"

datatype event =
    DatasetSubmitted uint256 address
  | AnalysisRequested uint256
  | ResultDecrypted uint256

text \<open>
  Every way a call can revert: the four \<open>require\<close> messages of the contract, a
  failed \<open>FHE.checkSignatures\<close>, a failed \<open>abi.decode\<close>, and the two compiler
  panics the code can reach (checked arithmetic, array index out of bounds).
\<close>

datatype error =
    NotAuthorized
  | AlreadyAnalyzed
  | AnalysisNotComplete
  | InvalidRequest
  | ProofVerificationFailed
  | DecodeFailed
  | PanicOverflow
  | PanicIndex

text \<open>
  What the contract takes from outside: \<open>FHE.asEuint32\<close> (trivial encryption),
  \<open>FHE.checkSignatures\<close> (reverts unless the proof is valid for the request and the
  cleartexts) and \<open>abi.decode(cleartexts, (uint32[]))\<close> (reverts on a malformed
  encoding). They are parameters: every theorem holds for all of them.
\<close>

record fhe_env =
  asEuint32 :: "uint32 \<Rightarrow> euint32"
  checkSignatures :: "uint256 \<Rightarrow> bytes \<Rightarrow> bytes \<Rightarrow> bool"
  abi_decode :: "bytes \<Rightarrow> uint32 list option"

record tx_context =
  msg_sender :: address
  block_timestamp :: uint256

type_synonym outcome = "error + contract_state \<times> event list"

definition initial_state :: contract_state where
  "initial_state =
     \<lparr> datasetCount = 0,
       encryptedDatasets = (\<lambda>_. \<lparr> id' = 0, encryptedGenotype = 0, encryptedPhenotype = 0,
                                   institution = 0, timestamp = 0 \<rparr>),
       analysisResults = (\<lambda>_. \<lparr> encryptedPValue = 0, encryptedOddsRatio = 0,
                                 isRevealed = False \<rparr>),
       encryptedGeneCounts = (\<lambda>_. 0),
       geneMarkers = [],
       requestToDatasetId = (\<lambda>_. 0) \<rparr>"

subsection \<open>Checked arithmetic (Solidity 0.8)\<close>

definition checked_add :: "'a::len word \<Rightarrow> 'a word \<Rightarrow> error + 'a word" where
  "checked_add a b =
     (if unat a + unat b < 2 ^ LENGTH('a) then Inr (a + b) else Inl PanicOverflow)"

definition checked_mul :: "'a::len word \<Rightarrow> 'a word \<Rightarrow> error + 'a word" where
  "checked_mul a b =
     (if unat a * unat b < 2 ^ LENGTH('a) then Inr (a * b) else Inl PanicOverflow)"

text \<open>\<open>values[i]\<close> on a memory array: panic when the index is out of bounds.\<close>

definition index_at :: "'a list \<Rightarrow> nat \<Rightarrow> error + 'a" where
  "index_at xs i = (if i < length xs then Inr (xs ! i) else Inl PanicIndex)"

subsection \<open>Operations\<close>

definition calculatePValue :: "uint32 \<Rightarrow> uint32 \<Rightarrow> error + uint32" where
  "calculatePValue genotype phenotype = checked_add genotype phenotype"

definition calculateOddsRatio :: "uint32 \<Rightarrow> uint32 \<Rightarrow> error + uint32" where
  "calculateOddsRatio genotype phenotype = checked_mul genotype phenotype"

text \<open>The modifier: the caller must be the institution stored for the dataset.\<close>

definition onlyInstitution :: "tx_context \<Rightarrow> contract_state \<Rightarrow> uint256 \<Rightarrow> bool" where
  "onlyInstitution ctx s datasetId =
     (msg_sender ctx = institution (encryptedDatasets s datasetId))"

definition submitEncryptedDataset ::
  "fhe_env \<Rightarrow> tx_context \<Rightarrow> contract_state \<Rightarrow> euint32 \<Rightarrow> euint32 \<Rightarrow> outcome" where
  "submitEncryptedDataset env ctx s genotype phenotype =
     (case checked_add (datasetCount s) 1 of
        Inl e \<Rightarrow> Inl e
      | Inr newId \<Rightarrow>
          Inr (s\<lparr> datasetCount := newId,
                  encryptedDatasets := (encryptedDatasets s)(newId :=
                    \<lparr> id' = newId, encryptedGenotype = genotype,
                      encryptedPhenotype = phenotype, institution = msg_sender ctx,
                      timestamp = block_timestamp ctx \<rparr>),
                  analysisResults := (analysisResults s)(newId :=
                    \<lparr> encryptedPValue = asEuint32 env 0,
                      encryptedOddsRatio = asEuint32 env 0,
                      isRevealed = False \<rparr>) \<rparr>,
               [DatasetSubmitted newId (msg_sender ctx)]))"

text \<open>
  \<open>reqId\<close> is the identifier \<open>FHE.requestDecryption\<close> returns for this call; the
  decryption oracle chooses it, the contract only records it.
\<close>

definition requestGWASAnalysis ::
  "fhe_env \<Rightarrow> tx_context \<Rightarrow> contract_state \<Rightarrow> uint256 \<Rightarrow> uint256 \<Rightarrow> outcome" where
  "requestGWASAnalysis env ctx s datasetId reqId =
     (if \<not> onlyInstitution ctx s datasetId then Inl NotAuthorized
      else if isRevealed (analysisResults s datasetId) then Inl AlreadyAnalyzed
      else Inr (s\<lparr> requestToDatasetId := (requestToDatasetId s)(reqId := datasetId) \<rparr>,
                [AnalysisRequested datasetId]))"

definition performAnalysis ::
  "fhe_env \<Rightarrow> contract_state \<Rightarrow> uint256 \<Rightarrow> bytes \<Rightarrow> bytes \<Rightarrow> outcome" where
  "performAnalysis env s requestId cleartexts proof =
     (let datasetId = requestToDatasetId s requestId in
      if datasetId = 0 then Inl InvalidRequest
      else if isRevealed (analysisResults s datasetId) then Inl AlreadyAnalyzed
      else if \<not> checkSignatures env requestId cleartexts proof
        then Inl ProofVerificationFailed
      else case abi_decode env cleartexts of
        None \<Rightarrow> Inl DecodeFailed
      | Some vals \<Rightarrow>
         (case index_at vals 0 of Inl e \<Rightarrow> Inl e | Inr genotype \<Rightarrow>
          case index_at vals 1 of Inl e \<Rightarrow> Inl e | Inr phenotype \<Rightarrow>
          case calculatePValue genotype phenotype of Inl e \<Rightarrow> Inl e | Inr pValue \<Rightarrow>
          case calculateOddsRatio genotype phenotype of Inl e \<Rightarrow> Inl e | Inr oddsRatio \<Rightarrow>
            Inr (s\<lparr> analysisResults := (analysisResults s)(datasetId :=
                      \<lparr> encryptedPValue = asEuint32 env pValue,
                        encryptedOddsRatio = asEuint32 env oddsRatio,
                        isRevealed = True \<rparr>) \<rparr>,
                 [ResultDecrypted datasetId])))"

definition getAnalysisResult :: "contract_state \<Rightarrow> uint256 \<Rightarrow> euint32 \<times> euint32 \<times> bool" where
  "getAnalysisResult s datasetId =
     (let r = analysisResults s datasetId
      in (encryptedPValue r, encryptedOddsRatio r, isRevealed r))"

definition requestResultDecryption ::
  "fhe_env \<Rightarrow> tx_context \<Rightarrow> contract_state \<Rightarrow> uint256 \<Rightarrow> uint256 \<Rightarrow> outcome" where
  "requestResultDecryption env ctx s datasetId reqId =
     (if \<not> onlyInstitution ctx s datasetId then Inl NotAuthorized
      else if \<not> isRevealed (analysisResults s datasetId) then Inl AnalysisNotComplete
      else Inr (s\<lparr> requestToDatasetId := (requestToDatasetId s)(reqId := datasetId) \<rparr>, []))"

definition decryptFinalResults ::
  "fhe_env \<Rightarrow> contract_state \<Rightarrow> uint256 \<Rightarrow> bytes \<Rightarrow> bytes \<Rightarrow> outcome" where
  "decryptFinalResults env s requestId cleartexts proof =
     (let datasetId = requestToDatasetId s requestId in
      if datasetId = 0 then Inl InvalidRequest
      else if \<not> checkSignatures env requestId cleartexts proof
        then Inl ProofVerificationFailed
      else case abi_decode env cleartexts of
        None \<Rightarrow> Inl DecodeFailed
      | Some results \<Rightarrow> Inr (s, []))"

subsection \<open>Transactions and traces\<close>

text \<open>
  The state-changing entry points as calls. A reverted call leaves the state as it was
  and emits nothing; a trace is any list of calls, each with its own sender and block
  time, run in order from a state.
\<close>

datatype call =
    SubmitEncryptedDataset euint32 euint32
  | RequestGWASAnalysis uint256 uint256
  | PerformAnalysis uint256 bytes bytes
  | RequestResultDecryption uint256 uint256
  | DecryptFinalResults uint256 bytes bytes

fun exec :: "fhe_env \<Rightarrow> contract_state \<Rightarrow> tx_context \<times> call \<Rightarrow> outcome" where
  "exec env s (ctx, SubmitEncryptedDataset g p) = submitEncryptedDataset env ctx s g p"
| "exec env s (ctx, RequestGWASAnalysis d r) = requestGWASAnalysis env ctx s d r"
| "exec env s (ctx, PerformAnalysis r c p) = performAnalysis env s r c p"
| "exec env s (ctx, RequestResultDecryption d r) = requestResultDecryption env ctx s d r"
| "exec env s (ctx, DecryptFinalResults r c p) = decryptFinalResults env s r c p"

definition step :: "fhe_env \<Rightarrow> contract_state \<Rightarrow> tx_context \<times> call \<Rightarrow> contract_state" where
  "step env s c = (case exec env s c of Inl e \<Rightarrow> s | Inr (s', evs) \<Rightarrow> s')"


fun run :: "fhe_env \<Rightarrow> contract_state \<Rightarrow> (tx_context \<times> call) list \<Rightarrow> contract_state" where
  "run env s [] = s"
| "run env s (c # cs) = run env (step env s c) cs"


subsection \<open>Bookkeeping over a trace\<close>

text \<open>
  The contract keeps no record of which requests are still open, so these notions are
  computed from the trace: the request identifiers registered so far
  (those of the successful request calls) and the requests still outstanding
  (registered, and no callback carrying that identifier has succeeded since).
\<close>

definition succeeds :: "fhe_env \<Rightarrow> contract_state \<Rightarrow> tx_context \<times> call \<Rightarrow> bool" where
  "succeeds env s c = (case exec env s c of Inl e \<Rightarrow> False | Inr r \<Rightarrow> True)"

fun issued :: "call \<Rightarrow> uint256 list" where
  "issued (RequestGWASAnalysis d r) = [r]"
| "issued (RequestResultDecryption d r) = [r]"
| "issued (SubmitEncryptedDataset g p) = []"
| "issued (PerformAnalysis r c p) = []"
| "issued (DecryptFinalResults r c p) = []"

fun registered :: "fhe_env \<Rightarrow> contract_state \<Rightarrow> (tx_context \<times> call) list \<Rightarrow> uint256 list" where
  "registered env s [] = []"
| "registered env s (c # cs) =
     (if succeeds env s c then issued (snd c) else []) @ registered env (step env s c) cs"






text \<open>
  Two facts about a state that hold along every trace whose senders are accounts (the
  zero address sends no transaction): a dataset with an institution, and the dataset of
  every correlation entry, has an identifier up to \<open>datasetCount\<close>. And a dataset
  counts as analysed when its flag is set and its identifier is in that range.
\<close>

definition ids_in_range :: "contract_state \<Rightarrow> bool" where
  "ids_in_range s =
     ((\<forall>d. institution (encryptedDatasets s d) \<noteq> 0 \<longrightarrow> unat d \<le> unat (datasetCount s))
      \<and> (\<forall>r. unat (requestToDatasetId s r) \<le> unat (datasetCount s)))"

definition analysed :: "contract_state \<Rightarrow> uint256 \<Rightarrow> bool" where
  "analysed s d = (isRevealed (analysisResults s d) \<and> unat d \<le> unat (datasetCount s))"


subsection \<open>A concrete environment\<close>

text \<open>
  An instance of the outside world for concrete runs: \<open>abi.decode\<close> for \<open>uint32[]\<close>
  as the Solidity ABI lays a dynamic array out (a 32-byte offset, at the offset the
  32-byte length, then one 32-byte big-endian word per element, each below \<open>2^32\<close>);
  a trivial encryption that pads the value; a proof check that accepts the one-byte
  proof \<open>[1]\<close>.
\<close>

definition be_nat :: "bytes \<Rightarrow> nat" where
  "be_nat bs = foldl (\<lambda>acc b. acc * 256 + unat b) 0 bs"

definition abi_word :: "bytes \<Rightarrow> nat \<Rightarrow> nat option" where
  "abi_word bs i = (if i + 32 \<le> length bs then Some (be_nat (take 32 (drop i bs))) else None)"

fun abi_elems :: "bytes \<Rightarrow> nat \<Rightarrow> nat \<Rightarrow> uint32 list option" where
  "abi_elems bs pos 0 = Some []"
| "abi_elems bs pos (Suc n) =
     (case abi_word bs pos of
        None \<Rightarrow> None
      | Some w \<Rightarrow>
          if w < 2 ^ 32 then map_option ((#) (of_nat w)) (abi_elems bs (pos + 32) n)
          else None)"

definition abi_decode_uint32_array :: "bytes \<Rightarrow> uint32 list option" where
  "abi_decode_uint32_array bs =
     (case abi_word bs 0 of
        None \<Rightarrow> None
      | Some off \<Rightarrow>
          (case abi_word bs off of
             None \<Rightarrow> None
           | Some n \<Rightarrow> abi_elems bs (off + 32) n))"

text \<open>The encoding of a list of numbers below \<open>2^32\<close>, to write cleartexts down.\<close>

definition abi_pad :: "nat \<Rightarrow> bytes" where
  "abi_pad n =
     replicate 28 0 @
     [of_nat (n div 16777216), of_nat (n div 65536), of_nat (n div 256), of_nat n]"

definition abi_encode :: "nat list \<Rightarrow> bytes" where
  "abi_encode xs = abi_pad 32 @ abi_pad (length xs) @ concat (map abi_pad xs)"

definition demo_env :: fhe_env where
  "demo_env = \<lparr> asEuint32 = ucast, checkSignatures = (\<lambda>r c p. p = [1]),
                abi_decode = abi_decode_uint32_array \<rparr>"

definition institution1 :: tx_context where
  "institution1 = \<lparr> msg_sender = 0x11, block_timestamp = 1000 \<rparr>"

definition institution2 :: tx_context where
  "institution2 = \<lparr> msg_sender = 0x22, block_timestamp = 1001 \<rparr>"

definition relayer :: tx_context where
  "relayer = \<lparr> msg_sender = 0x99, block_timestamp = 1002 \<rparr>"

text \<open>
  Institution 1 submits a dataset and requests its analysis (the oracle answers with
  request 7); then the callback delivers genotype 3 and phenotype 4.
\<close>

definition request_trace :: "(tx_context \<times> call) list" where
  "request_trace =
     [(institution1, SubmitEncryptedDataset 5 6),
      (institution1, RequestGWASAnalysis 1 7)]"

definition analysis_trace :: "(tx_context \<times> call) list" where
  "analysis_trace = request_trace @ [(relayer, PerformAnalysis 7 (abi_encode [3, 4]) [1])]"




section \<open>The client synchronizer \<open>App.tsx\<close>\<close>

subsection \<open>JavaScript values\<close>

text \<open>
  What \<open>JSON.parse\<close> returns: a JSON value. Numbers are the integers (the
  timestamps the application writes are \<open>Math.floor(Date.now() / 1000)\<close>); an object is
  the list of its own properties, each name once. A property read gives a
  \<open>js_value\<close>, where \<open>None\<close> is JavaScript's \<open>undefined\<close>. Strings are byte strings.
\<close>

datatype json =
    JNull
  | JBool bool
  | JNum int
  | JStr string
  | JArr "json list"
  | JObj "(string \<times> json) list"

type_synonym js_value = "json option"

definition digit_char :: "nat \<Rightarrow> char" where
  "digit_char d = ''0123456789'' ! d"

fun show_nat :: "nat \<Rightarrow> string" where
  "show_nat n =
     (if n < 10 then [digit_char n]
      else show_nat (n div 10) @ [digit_char (n mod 10)])"

declare show_nat.simps [simp del]

definition show_int :: "int \<Rightarrow> string" where
  "show_int i = (if i < 0 then ''-'' @ show_nat (nat (- i)) else show_nat (nat i))"

fun join :: "string \<Rightarrow> string list \<Rightarrow> string" where
  "join sep [] = []"
| "join sep [x] = x"
| "join sep (x # y # ys) = x @ sep @ join sep (y # ys)"

text \<open>
  \<open>ToString\<close>, as the template literal \<open>`gwas_${key}`\<close> applies it: an array is its
  elements joined by commas (\<open>null\<close> as the empty string), an object is
  \<open>[object Object]\<close>.
\<close>

fun to_string :: "json \<Rightarrow> string" where
  "to_string JNull = ''null''"
| "to_string (JBool b) = (if b then ''true'' else ''false'')"
| "to_string (JNum n) = show_int n"
| "to_string (JStr s) = s"
| "to_string (JArr xs) =
     join '','' (map (\<lambda>x. if x = JNull then [] else to_string x) xs)"
| "to_string (JObj fs) = ''[object Object]''"

text \<open>
  The runtime and library functions the component calls. \<open>JSON_parse\<close> is
  \<open>JSON.parse(ethers.toUtf8String(bytes))\<close>, \<open>None\<close> when either throws;
  \<open>string_to_number\<close> is the conversion of a string to a number, \<open>None\<close> for \<open>NaN\<close>;
  \<open>btoa\<close> throws (\<open>None\<close>) on a character outside Latin-1. They are parameters.
\<close>

record js_env =
  JSON_parse :: "string \<Rightarrow> json option"
  JSON_stringify :: "json \<Rightarrow> string"
  btoa :: "string \<Rightarrow> string option"
  string_to_number :: "string \<Rightarrow> int option"

text \<open>\<open>ToNumber\<close>, as the subtraction in the sort comparator applies it; \<open>None\<close> is \<open>NaN\<close>.\<close>

fun to_number :: "js_env \<Rightarrow> js_value \<Rightarrow> int option" where
  "to_number env None = None"
| "to_number env (Some JNull) = Some 0"
| "to_number env (Some (JBool b)) = Some (if b then 1 else 0)"
| "to_number env (Some (JNum n)) = Some n"
| "to_number env (Some (JStr s)) = string_to_number env s"
| "to_number env (Some (JArr xs)) = string_to_number env (to_string (JArr xs))"
| "to_number env (Some (JObj fs)) = string_to_number env (to_string (JObj fs))"

fun truthy :: "js_value \<Rightarrow> bool" where
  "truthy None = False"
| "truthy (Some JNull) = False"
| "truthy (Some (JBool b)) = b"
| "truthy (Some (JNum n)) = (n \<noteq> 0)"
| "truthy (Some (JStr s)) = (s \<noteq> [])"
| "truthy (Some (JArr xs)) = True"
| "truthy (Some (JObj fs)) = True"

text \<open>
  Reading a property of a parsed value other than \<open>null\<close>: an object gives the
  property or \<open>undefined\<close>; a number, boolean, string or array has none of the five
  names the component reads.
\<close>

fun get_prop :: "json \<Rightarrow> string \<Rightarrow> js_value" where
  "get_prop (JObj fs) name = map_of fs name"
| "get_prop JNull name = None"
| "get_prop (JBool b) name = None"
| "get_prop (JNum n) name = None"
| "get_prop (JStr s) name = None"
| "get_prop (JArr xs) name = None"

text \<open>\<open>for (const key of keys)\<close>: an array or a string can be iterated, nothing else.\<close>

fun iterate :: "json \<Rightarrow> json list option" where
  "iterate (JArr xs) = Some xs"
| "iterate (JStr s) = Some (map (\<lambda>c. JStr [c]) s)"
| "iterate JNull = None"
| "iterate (JBool b) = None"
| "iterate (JNum n) = None"
| "iterate (JObj fs) = None"

text \<open>
  \<open>Array.prototype.sort\<close> with a comparator: a stable sort, where \<open>x\<close> goes before
  \<open>y\<close> unless the comparator is positive. (For a comparator that is not a consistent
  order the language leaves the result to the engine; insertion from the right is what
  a stable engine does on the short lists used here.)
\<close>

fun insert_by :: "('a \<Rightarrow> 'a \<Rightarrow> int) \<Rightarrow> 'a \<Rightarrow> 'a list \<Rightarrow> 'a list" where
  "insert_by cmp x [] = [x]"
| "insert_by cmp x (y # ys) =
     (if cmp x y \<le> 0 then x # y # ys else y # insert_by cmp x ys)"

definition js_sort :: "('a \<Rightarrow> 'a \<Rightarrow> int) \<Rightarrow> 'a list \<Rightarrow> 'a list" where
  "js_sort cmp xs = foldr (insert_by cmp) xs []"

subsection \<open>The store and the component state\<close>

record GwasData =
  rec_id :: json
  rec_encryptedData :: js_value
  rec_timestamp :: js_value
  rec_institution :: js_value
  rec_studyType :: js_value
  rec_status :: js_value

record NewDataset =
  studyType :: string
  description :: string
  genomicData :: string

text \<open>
  The contract handle the component gets: whether \<open>getContractReadOnly\<close> and
  \<open>getContractWithSigner\<close> give a contract, what \<open>isAvailable()\<close> answers, and the
  key-value storage behind \<open>getData\<close> and \<open>setData\<close> (a key never written reads as
  the empty byte string).
\<close>

record chain =
  readonly_contract :: bool
  signer_contract :: bool
  isAvailable :: bool
  storage :: "string \<Rightarrow> string"

definition getData :: "chain \<Rightarrow> string \<Rightarrow> string" where
  "getData ch key = storage ch key"

definition setData :: "chain \<Rightarrow> string \<Rightarrow> string \<Rightarrow> chain" where
  "setData ch key val = ch\<lparr> storage := (storage ch)(key := val) \<rparr>"

subsection \<open>\<open>loadDatasets\<close>\<close>

text \<open>
  The index read shared by \<open>loadDatasets\<close> and \<open>uploadDataset\<close>: \<open>keys\<close> starts as
  the empty array and is replaced by the parsed index when the stored value is not empty
  and parses; a parse error is logged (\<open>msg\<close>) and swallowed.
\<close>

definition parse_keys :: "js_env \<Rightarrow> string \<Rightarrow> string \<Rightarrow> json \<times> string list" where
  "parse_keys env msg keysBytes =
     (if keysBytes = [] then (JArr [], [])
      else case JSON_parse env keysBytes of
             None \<Rightarrow> (JArr [], [msg])
           | Some keys \<Rightarrow> (keys, []))"

definition record_of :: "json \<Rightarrow> json \<Rightarrow> GwasData" where
  "record_of key dataset =
     \<lparr> rec_id = key,
       rec_encryptedData = get_prop dataset ''data'',
       rec_timestamp = get_prop dataset ''timestamp'',
       rec_institution = get_prop dataset ''institution'',
       rec_studyType = get_prop dataset ''studyType'',
       rec_status = (if truthy (get_prop dataset ''status'') then get_prop dataset ''status''
                     else Some (JStr ''pending'')) \<rparr>"

text \<open>
  One round of the loop: the records it pushes (none or one) and what it logs. A record
  that parses to \<open>null\<close> throws on the first property read, inside the same \<open>try\<close>.
\<close>

definition load_one :: "js_env \<Rightarrow> chain \<Rightarrow> json \<Rightarrow> GwasData list \<times> string list" where
  "load_one env ch key =
     (let datasetBytes = getData ch (''gwas_'' @ to_string key) in
      if datasetBytes = [] then ([], [])
      else case JSON_parse env datasetBytes of
             None \<Rightarrow> ([], [''Error parsing dataset for '' @ to_string key @ '':''])
           | Some JNull \<Rightarrow> ([], [''Error parsing dataset for '' @ to_string key @ '':''])
           | Some dataset \<Rightarrow> ([record_of key dataset], []))"

fun load_all :: "js_env \<Rightarrow> chain \<Rightarrow> json list \<Rightarrow> GwasData list \<times> string list" where
  "load_all env ch [] = ([], [])"
| "load_all env ch (key # keys) =
     (fst (load_one env ch key) @ fst (load_all env ch keys),
      snd (load_one env ch key) @ snd (load_all env ch keys))"

definition compare_timestamp :: "js_env \<Rightarrow> GwasData \<Rightarrow> GwasData \<Rightarrow> int" where
  "compare_timestamp env a b =
     (case (to_number env (rec_timestamp b), to_number env (rec_timestamp a)) of
        (Some x, Some y) \<Rightarrow> x - y
      | _ \<Rightarrow> 0)"

text \<open>
  \<open>loadDatasets\<close> takes the current \<open>gwasDatasets\<close> and returns the new one with the
  console output. Where the function returns early or an exception reaches the outer
  \<open>catch\<close>, \<open>setGwasDatasets\<close> is not called and the list stays as it was.
\<close>

definition loadDatasets :: "js_env \<Rightarrow> chain \<Rightarrow> GwasData list \<Rightarrow> GwasData list \<times> string list" where
  "loadDatasets env ch gwasDatasets =
     (if \<not> readonly_contract ch then (gwasDatasets, [])
      else if \<not> isAvailable ch then (gwasDatasets, [''Contract is not available''])
      else let parsed = parse_keys env ''Error parsing dataset keys:'' (getData ch ''gwas_keys'') in
        case iterate (fst parsed) of
          None \<Rightarrow> (gwasDatasets, snd parsed @ [''Error loading datasets:''])
        | Some keys \<Rightarrow>
            (js_sort (compare_timestamp env) (fst (load_all env ch keys)),
             snd parsed @ snd (load_all env ch keys)))"

subsection \<open>\<open>uploadDataset\<close>\<close>

datatype upload_failure = BtoaFailed | NoSignerContract | KeysNotArray

datatype upload_status = NotConnected | UploadError upload_failure | UploadSuccess

definition dataset_id :: "nat \<Rightarrow> string \<Rightarrow> string" where
  "dataset_id now rnd = show_nat now @ ''-'' @ rnd"

definition dataset_json :: "string \<Rightarrow> nat \<Rightarrow> string \<Rightarrow> NewDataset \<Rightarrow> json" where
  "dataset_json encryptedData now account newDataset =
     JObj [(''data'', JStr encryptedData),
           (''timestamp'', JNum (int (now div 1000))),
           (''institution'', JStr account),
           (''studyType'', JStr (studyType newDataset)),
           (''status'', JStr ''pending'')]"

definition new_dataset_json :: "NewDataset \<Rightarrow> json" where
  "new_dataset_json newDataset =
     JObj [(''studyType'', JStr (studyType newDataset)),
           (''description'', JStr (description newDataset)),
           (''genomicData'', JStr (genomicData newDataset))]"

text \<open>
  \<open>provider\<close> says whether a wallet is connected and \<open>account\<close> is its address;
  \<open>now_id\<close> and \<open>now_ts\<close> are the two readings of \<open>Date.now()\<close> and \<open>rnd\<close> is
  \<open>Math.random().toString(36).substring(2, 9)\<close>. The result is the transaction status
  shown, the store, the list and the console output. \<open>keys.push\<close> exists only when the
  parsed index is an array; on anything else the call throws after the record was
  written.
\<close>

definition uploadDataset ::
  "js_env \<Rightarrow> bool \<Rightarrow> string \<Rightarrow> NewDataset \<Rightarrow> nat \<Rightarrow> string \<Rightarrow> nat \<Rightarrow> chain \<Rightarrow> GwasData list
     \<Rightarrow> upload_status \<times> chain \<times> GwasData list \<times> string list" where
  "uploadDataset env provider account newDataset now_id rnd now_ts ch gwasDatasets =
     (if \<not> provider then (NotConnected, ch, gwasDatasets, [])
      else case btoa env (JSON_stringify env (new_dataset_json newDataset)) of
        None \<Rightarrow> (UploadError BtoaFailed, ch, gwasDatasets, [])
      | Some b64 \<Rightarrow>
          if \<not> signer_contract ch then (UploadError NoSignerContract, ch, gwasDatasets, [])
          else
            let encryptedData = ''FHE-GWAS-'' @ b64;
                datasetId = dataset_id now_id rnd;
                datasetData = dataset_json encryptedData now_ts account newDataset;
                ch1 = setData ch (''gwas_'' @ datasetId) (JSON_stringify env datasetData);
                parsed = parse_keys env ''Error parsing keys:'' (getData ch1 ''gwas_keys'')
            in case fst parsed of
                 JArr keys \<Rightarrow>
                   let ch2 = setData ch1 ''gwas_keys''
                               (JSON_stringify env (JArr (keys @ [JStr datasetId])));
                       loaded = loadDatasets env ch2 gwasDatasets
                   in (UploadSuccess, ch2, fst loaded, snd parsed @ snd loaded)
               | _ \<Rightarrow> (UploadError KeysNotArray, ch1, gwasDatasets, snd parsed))"



definition roundtrips :: "js_env \<Rightarrow> json \<Rightarrow> bool" where
  "roundtrips env j =
     (JSON_stringify env j \<noteq> [] \<and> JSON_parse env (JSON_stringify env j) = Some j)"

subsection \<open>A concrete JavaScript environment\<close>

text \<open>
  An instance of the runtime for concrete runs: a JSON printer and parser for the
  documents the component writes (no white space, integers, the escapes of the double
  quote and the backslash), Base64 for \<open>btoa\<close>, and the conversion of a decimal
  string to a number. The parser takes fuel, one unit more than the length of the text.
\<close>

definition quote :: "string \<Rightarrow> string" where
  "quote s =
     CHR 0x22 # concat (map (\<lambda>c. if c = CHR 0x22 \<or> c = CHR 0x5C then [CHR 0x5C, c] else [c]) s)
       @ [CHR 0x22]"

fun demo_stringify :: "json \<Rightarrow> string" where
  "demo_stringify JNull = ''null''"
| "demo_stringify (JBool b) = (if b then ''true'' else ''false'')"
| "demo_stringify (JNum n) = show_int n"
| "demo_stringify (JStr s) = quote s"
| "demo_stringify (JArr xs) = ''['' @ join '','' (map demo_stringify xs) @ '']''"
| "demo_stringify (JObj fs) =
     ''{'' @ join '','' (map (\<lambda>kv. quote (fst kv) @ '':'' @ demo_stringify (snd kv)) fs) @ ''}''"

definition is_digit :: "char \<Rightarrow> bool" where
  "is_digit c = (48 \<le> (of_char c :: nat) \<and> (of_char c :: nat) \<le> 57)"

definition digits_to_nat :: "string \<Rightarrow> nat" where
  "digits_to_nat ds = foldl (\<lambda>acc c. acc * 10 + (of_char c - 48)) 0 ds"

fun read_string :: "string \<Rightarrow> (string \<times> string) option" where
  "read_string [] = None"
| "read_string (c # cs) =
     (if c = CHR 0x22 then Some ([], cs)
      else if c = CHR 0x5C then
        (case cs of
           [] \<Rightarrow> None
         | d # ds \<Rightarrow>
             if d = CHR 0x22 \<or> d = CHR 0x5C then map_option (apfst ((#) d)) (read_string ds)
             else None)
      else map_option (apfst ((#) c)) (read_string cs))"

definition read_unsigned :: "string \<Rightarrow> (nat \<times> string) option" where
  "read_unsigned s =
     (let ds = takeWhile is_digit s in
      if ds = [] \<or> (length ds > 1 \<and> hd ds = CHR ''0'') then None
      else Some (digits_to_nat ds, dropWhile is_digit s))"

definition read_number :: "string \<Rightarrow> (json \<times> string) option" where
  "read_number s =
     (case s of
        [] \<Rightarrow> None
      | c # r \<Rightarrow>
          if c = CHR ''-'' then map_option (apfst (\<lambda>n. JNum (- int n))) (read_unsigned r)
          else map_option (apfst (\<lambda>n. JNum (int n))) (read_unsigned s))"

definition add_member :: "string \<Rightarrow> json \<Rightarrow> (string \<times> json) list \<Rightarrow> (string \<times> json) list" where
  "add_member k v rest = (if k \<in> set (map fst rest) then rest else (k, v) # rest)"

fun parse_value :: "nat \<Rightarrow> string \<Rightarrow> (json \<times> string) option"
  and parse_elems :: "nat \<Rightarrow> string \<Rightarrow> (json list \<times> string) option"
  and parse_members :: "nat \<Rightarrow> string \<Rightarrow> ((string \<times> json) list \<times> string) option" where
  "parse_value 0 s = None"
| "parse_value (Suc n) s =
     (if take 4 s = ''null'' then Some (JNull, drop 4 s)
      else if take 4 s = ''true'' then Some (JBool True, drop 4 s)
      else if take 5 s = ''false'' then Some (JBool False, drop 5 s)
      else case s of
        [] \<Rightarrow> None
      | c # r \<Rightarrow>
          if c = CHR 0x22 then map_option (apfst JStr) (read_string r)
          else if c = CHR ''['' then
            (if take 1 r = '']'' then Some (JArr [], drop 1 r)
             else map_option (apfst JArr) (parse_elems n r))
          else if c = CHR ''{'' then
            (if take 1 r = ''}'' then Some (JObj [], drop 1 r)
             else map_option (apfst JObj) (parse_members n r))
          else read_number s)"
| "parse_elems 0 s = None"
| "parse_elems (Suc n) s =
     (case parse_value n s of
        None \<Rightarrow> None
      | Some (v, r) \<Rightarrow>
          (case r of
             [] \<Rightarrow> None
           | c # r' \<Rightarrow>
               if c = CHR '','' then map_option (apfst ((#) v)) (parse_elems n r')
               else if c = CHR '']'' then Some ([v], r')
               else None))"
| "parse_members 0 s = None"
| "parse_members (Suc n) s =
     (case s of
        [] \<Rightarrow> None
      | q # r \<Rightarrow>
          if q \<noteq> CHR 0x22 then None
          else case read_string r of
            None \<Rightarrow> None
          | Some (k, r1) \<Rightarrow>
              (case r1 of
                 [] \<Rightarrow> None
               | c # r2 \<Rightarrow>
                   if c \<noteq> CHR '':'' then None
                   else case parse_value n r2 of
                     None \<Rightarrow> None
                   | Some (v, r3) \<Rightarrow>
                       (case r3 of
                          [] \<Rightarrow> None
                        | c3 # r4 \<Rightarrow>
                            if c3 = CHR '','' then
                              map_option (apfst (add_member k v)) (parse_members n r4)
                            else if c3 = CHR ''}'' then Some ([(k, v)], r4)
                            else None)))"

definition demo_parse :: "string \<Rightarrow> json option" where
  "demo_parse s =
     (case parse_value (Suc (length s)) s of
        None \<Rightarrow> None
      | Some (v, rest) \<Rightarrow> if rest = [] then Some v else None)"

definition demo_string_to_number :: "string \<Rightarrow> int option" where
  "demo_string_to_number s =
     (if s = [] then Some 0
      else if list_all is_digit s then Some (int (digits_to_nat s))
      else None)"

definition b64_char :: "nat \<Rightarrow> char" where
  "b64_char n =
     (if n < 26 then char_of (65 + n)
      else if n < 52 then char_of (71 + n)
      else if n < 62 then char_of (n - 4)
      else if n = 62 then CHR ''+'' else CHR ''/'')"

fun b64_encode :: "nat list \<Rightarrow> string" where
  "b64_encode [] = []"
| "b64_encode [a] = [b64_char (a div 4), b64_char ((a mod 4) * 16), CHR ''='', CHR ''='']"
| "b64_encode [a, b] =
     [b64_char (a div 4), b64_char ((a mod 4) * 16 + b div 16),
      b64_char ((b mod 16) * 4), CHR ''='']"
| "b64_encode (a # b # c # rest) =
     [b64_char (a div 4), b64_char ((a mod 4) * 16 + b div 16),
      b64_char ((b mod 16) * 4 + c div 64), b64_char (c mod 64)] @ b64_encode rest"

definition demo_js :: js_env where
  "demo_js = \<lparr> JSON_parse = demo_parse, JSON_stringify = demo_stringify,
               btoa = (\<lambda>s. Some (b64_encode (map of_char s))),
               string_to_number = demo_string_to_number \<rparr>"

text \<open>Stores for concrete runs.\<close>

definition store_of :: "(string \<times> string) list \<Rightarrow> chain" where
  "store_of kvs =
     \<lparr> readonly_contract = True, signer_contract = True, isAvailable = True,
       storage = (\<lambda>key. case map_of kvs key of None \<Rightarrow> [] | Some v \<Rightarrow> v) \<rparr>"



text \<open>An index that is not JSON, and a record stored under it earlier.\<close>

definition corrupt_index_chain :: chain where
  "corrupt_index_chain =
     store_of [(''gwas_keys'', ''[\"a\"''),
               (''gwas_a'', ''{\"timestamp\":1,\"institution\":\"0xabc\"}'')]"

definition demo_dataset :: NewDataset where
  "demo_dataset = \<lparr> studyType = ''T2D'', description = ''cohort'', genomicData = ''ACGT'' \<rparr>"

text \<open>An upload of \<open>demo_dataset\<close> by the account \<open>0xabc\<close> with fixed clock and random suffix.\<close>

definition demo_upload :: "chain \<Rightarrow> upload_status \<times> chain \<times> GwasData list \<times> string list" where
  "demo_upload ch =
     uploadDataset demo_js True ''0xabc'' demo_dataset 1700000000123 ''k3j9x2q'' 1700000000456 ch []"

section \<open>Properties of the ledger contract\<close>

subsection \<open>Auxiliary facts\<close>

lemmas op_defs = submitEncryptedDataset_def requestGWASAnalysis_def performAnalysis_def
  requestResultDecryption_def decryptFinalResults_def

lemma checked_add_one:
  "checked_add (c::'a::len word) 1 = Inr n \<Longrightarrow> n = c + 1 \<and> unat n = Suc (unat c)"
  by (auto simp: checked_add_def unat_word_ariths split: if_splits)







lemma step_requestToDatasetId:
  "requestToDatasetId (step env s c) r \<noteq> requestToDatasetId s r
     \<Longrightarrow> succeeds env s c \<and> r \<in> set (issued (snd c))"
  by (cases c; cases "snd c")
     (auto simp: step_def succeeds_def op_defs Let_def
        split: sum.splits if_splits option.splits)

lemma run_requestToDatasetId:
  "requestToDatasetId (run env s cs) r \<noteq> requestToDatasetId s r
     \<Longrightarrow> r \<in> set (registered env s cs)"
proof (induction cs arbitrary: s)
  case Nil
  then show ?case by simp
next
  case (Cons c cs)
  show ?case
  proof (cases "requestToDatasetId (step env s c) r = requestToDatasetId s r")
    case True
    with Cons.prems have "requestToDatasetId (run env (step env s c) cs) r
        \<noteq> requestToDatasetId (step env s c) r" by simp
    then have "r \<in> set (registered env (step env s c) cs)" by (rule Cons.IH)
    then show ?thesis by simp
  next
    case False
    then have "succeeds env s c \<and> r \<in> set (issued (snd c))"
      by (rule step_requestToDatasetId)
    then show ?thesis by simp
  qed
qed

lemma step_keeps_entry:
  "r \<notin> set (issued (snd c)) \<Longrightarrow> requestToDatasetId (step env s c) r = requestToDatasetId s r"
  using step_requestToDatasetId by blast

lemma unat_add_exact:
  "unat (a::'a::len word) + unat b < 2 ^ LENGTH('a) \<Longrightarrow> unat (a + b) = unat a + unat b"
  by (simp add: unat_word_ariths)

lemma unat_mul_exact:
  "unat (a::'a::len word) * unat b < 2 ^ LENGTH('a) \<Longrightarrow> unat (a * b) = unat a * unat b"
  by (simp add: unat_word_ariths)

subsection \<open>Concrete runs\<close>

lemma abi_elems_numeral:
  "abi_elems bs pos (numeral k) =
     (case abi_word bs pos of
        None \<Rightarrow> None
      | Some w \<Rightarrow>
          if w < 2 ^ 32 then map_option ((#) (of_nat w)) (abi_elems bs (pos + 32) (pred_numeral k))
          else None)"
  by (simp add: numeral_eq_Suc)

lemma foldl_be_zeros: "foldl (\<lambda>acc b. acc * 256 + unat b) 0 (replicate n (0::8 word)) = 0"
  by (induction n) simp_all

lemma be_nat_pad:
  "be_nat (replicate n 0 @ [a, b, c, d]) =
     ((unat a * 256 + unat b) * 256 + unat c) * 256 + unat d"
  by (simp add: be_nat_def foldl_be_zeros)

lemmas abi_eval = abi_decode_uint32_array_def abi_encode_def abi_pad_def abi_word_def
  be_nat_pad abi_elems_numeral

lemma abi_decode_3_4: "abi_decode_uint32_array (abi_encode [3, 4]) = Some [3, 4]"
  by (simp add: abi_eval)


lemma abi_decode_65536: "abi_decode_uint32_array (abi_encode [65536, 65536]) = Some [65536, 65536]"
  by (simp add: abi_eval)

lemma demo_env_fields:
  "asEuint32 demo_env = ucast"
  "checkSignatures demo_env r c p = (p = [1])"
  "abi_decode demo_env = abi_decode_uint32_array"
  by (simp_all add: demo_env_def)

lemma sender_fields:
  "msg_sender institution1 = 0x11" "block_timestamp institution1 = 1000"
  "msg_sender institution2 = 0x22" "block_timestamp institution2 = 1001"
  "msg_sender relayer = 0x99" "block_timestamp relayer = 1002"
  by (simp_all add: institution1_def institution2_def relayer_def)

lemma request_state:
  "run demo_env initial_state request_trace =
     initial_state
       \<lparr> datasetCount := 1,
         encryptedDatasets := (encryptedDatasets initial_state)(1 :=
           \<lparr> id' = 1, encryptedGenotype = 5, encryptedPhenotype = 6, institution = 0x11,
             timestamp = 1000 \<rparr>),
         analysisResults := (analysisResults initial_state)(1 :=
           \<lparr> encryptedPValue = 0, encryptedOddsRatio = 0, isRevealed = False \<rparr>),
         requestToDatasetId := (requestToDatasetId initial_state)(7 := 1) \<rparr>"
  by (simp add: request_trace_def demo_env_fields sender_fields step_def onlyInstitution_def
      checked_add_def submitEncryptedDataset_def requestGWASAnalysis_def initial_state_def)

lemma request_state_fields:
  "requestToDatasetId (run demo_env initial_state request_trace) 7 = 1"
  "requestToDatasetId (run demo_env initial_state request_trace) 9 = 0"
  "\<not> isRevealed (analysisResults (run demo_env initial_state request_trace) 1)"
  "institution (encryptedDatasets (run demo_env initial_state request_trace) 1) = 0x11"
  unfolding request_state by (simp_all add: initial_state_def)

lemma run_append: "run env s (xs @ ys) = run env (run env s xs) ys"
  by (induction xs arbitrary: s) simp_all

lemma perform_3_4:
  "performAnalysis demo_env (run demo_env initial_state request_trace) 7 (abi_encode [3, 4]) [1]
     = Inr ((run demo_env initial_state request_trace)
              \<lparr> analysisResults := (analysisResults (run demo_env initial_state request_trace))(1 :=
                   \<lparr> encryptedPValue = 7, encryptedOddsRatio = 12, isRevealed = True \<rparr>) \<rparr>,
            [ResultDecrypted 1])"
  by (simp add: performAnalysis_def request_state_fields demo_env_fields abi_decode_3_4
      index_at_def calculatePValue_def calculateOddsRatio_def checked_add_def checked_mul_def)

lemma analysis_state:
  "run demo_env initial_state analysis_trace =
     (run demo_env initial_state request_trace)
        \<lparr> analysisResults := (analysisResults (run demo_env initial_state request_trace))(1 :=
             \<lparr> encryptedPValue = 7, encryptedOddsRatio = 12, isRevealed = True \<rparr>) \<rparr>"
  by (simp add: analysis_trace_def run_append step_def perform_3_4)







lemma request_registered: "registered demo_env initial_state request_trace = [7]"
  by (simp add: request_trace_def demo_env_fields sender_fields step_def succeeds_def
      onlyInstitution_def checked_add_def submitEncryptedDataset_def requestGWASAnalysis_def
      initial_state_def)

subsection \<open>The reveal callback\<close>




subsection \<open>The correlation table\<close>




subsection \<open>Dataset identifiers\<close>



subsection \<open>Callbacks with an unknown request\<close>

text \<open>
  Claim C4. In every state reachable from the initial one, a request identifier that no
  successful \<open>requestGWASAnalysis\<close> or \<open>requestResultDecryption\<close> of the trace has
  registered makes both \<open>performAnalysis\<close> and \<open>decryptFinalResults\<close> fail with
  \<open>Invalid request\<close>, and the state stays as it was.
\<close>

theorem unregistered_request_rejected:
  assumes "r \<notin> set (registered env initial_state cs)"
  shows "performAnalysis env (run env initial_state cs) r cleartexts prf = Inl InvalidRequest
       \<and> decryptFinalResults env (run env initial_state cs) r cleartexts prf = Inl InvalidRequest
       \<and> step env (run env initial_state cs) (ctx, PerformAnalysis r cleartexts prf)
           = run env initial_state cs
       \<and> step env (run env initial_state cs) (ctx, DecryptFinalResults r cleartexts prf)
           = run env initial_state cs"
proof -
  have "requestToDatasetId (run env initial_state cs) r = requestToDatasetId initial_state r"
    using assms run_requestToDatasetId [of env initial_state cs r] by blast
  then have z: "requestToDatasetId (run env initial_state cs) r = 0"
    by (simp add: initial_state_def)
  show ?thesis
    by (simp add: step_def performAnalysis_def decryptFinalResults_def z)
qed

text \<open>Request 9 was never issued in \<open>request_trace\<close>.\<close>

theorem unregistered_request_rejected_witness:
  "9 \<notin> set (registered demo_env initial_state request_trace)
   \<and> performAnalysis demo_env (run demo_env initial_state request_trace) 9 (abi_encode [3, 4]) [1]
       = Inl InvalidRequest
   \<and> decryptFinalResults demo_env (run demo_env initial_state request_trace) 9
         (abi_encode [3, 4]) [1]
       = Inl InvalidRequest
   \<and> step demo_env (run demo_env initial_state request_trace)
         (relayer, PerformAnalysis 9 (abi_encode [3, 4]) [1])
       = run demo_env initial_state request_trace
   \<and> step demo_env (run demo_env initial_state request_trace)
         (relayer, DecryptFinalResults 9 (abi_encode [3, 4]) [1])
       = run demo_env initial_state request_trace"
proof -
  have h: "9 \<notin> set (registered demo_env initial_state request_trace)"
    by (simp add: request_registered)
  from h unregistered_request_rejected [OF h] show ?thesis by (rule conjI)
qed

subsection \<open>Requests by another caller\<close>

text \<open>
  Claim C5. For every dataset and every caller that is not the institution stored for
  it, \<open>requestGWASAnalysis\<close> and \<open>requestResultDecryption\<close> fail with
  \<open>Not authorized\<close> and the state stays as it was.
\<close>

theorem non_owner_request_rejected:
  assumes "msg_sender ctx \<noteq> institution (encryptedDatasets s datasetId)"
  shows "requestGWASAnalysis env ctx s datasetId reqId = Inl NotAuthorized
       \<and> requestResultDecryption env ctx s datasetId reqId = Inl NotAuthorized
       \<and> step env s (ctx, RequestGWASAnalysis datasetId reqId) = s
       \<and> step env s (ctx, RequestResultDecryption datasetId reqId) = s"
  using assms
  by (simp add: step_def requestGWASAnalysis_def requestResultDecryption_def onlyInstitution_def)

text \<open>Institution 2 asks for the dataset of institution 1.\<close>

theorem non_owner_request_rejected_witness:
  "msg_sender institution2
     \<noteq> institution (encryptedDatasets (run demo_env initial_state request_trace) 1)
   \<and> requestGWASAnalysis demo_env institution2 (run demo_env initial_state request_trace) 1 8
       = Inl NotAuthorized
   \<and> requestResultDecryption demo_env institution2 (run demo_env initial_state request_trace) 1 8
       = Inl NotAuthorized
   \<and> step demo_env (run demo_env initial_state request_trace)
         (institution2, RequestGWASAnalysis 1 8)
       = run demo_env initial_state request_trace
   \<and> step demo_env (run demo_env initial_state request_trace)
         (institution2, RequestResultDecryption 1 8)
       = run demo_env initial_state request_trace"
proof -
  have h: "msg_sender institution2
     \<noteq> institution (encryptedDatasets (run demo_env initial_state request_trace) 1)"
    by (simp add: request_state_fields sender_fields)
  from h non_owner_request_rejected [OF h] show ?thesis by (rule conjI)
qed

subsection \<open>A second completion\<close>

text \<open>
  Claim C6. Once \<open>performAnalysis\<close> has succeeded for a request, a second
  \<open>performAnalysis\<close> with the same request identifier (or with any other identifier
  registered for the same dataset), whatever cleartext and proof it carries, fails with
  \<open>Already analyzed\<close>; the state, and with it the stored analysis result, stays as it
  was.
\<close>

theorem second_completion_rejected:
  assumes ok: "performAnalysis env s requestId cleartexts prf = Inr (s', evs)"
    and same: "requestToDatasetId s requestId' = requestToDatasetId s requestId"
  shows "performAnalysis env s' requestId' cleartexts' prf' = Inl AlreadyAnalyzed
       \<and> step env s' (ctx, PerformAnalysis requestId' cleartexts' prf') = s'
       \<and> getAnalysisResult (step env s' (ctx, PerformAnalysis requestId' cleartexts' prf'))
            (requestToDatasetId s requestId)
          = getAnalysisResult s' (requestToDatasetId s requestId)"
proof -
  from ok have d: "requestToDatasetId s' = requestToDatasetId s"
    and nz: "requestToDatasetId s requestId \<noteq> 0"
    and rev: "isRevealed (analysisResults s' (requestToDatasetId s requestId))"
    by (auto simp: performAnalysis_def Let_def split: if_splits option.splits sum.splits)
  have e: "performAnalysis env s' requestId' cleartexts' prf' = Inl AlreadyAnalyzed"
    using d nz rev same by (simp add: performAnalysis_def)
  then show ?thesis by (simp add: step_def)
qed

text \<open>The callback for request 7 arrives a second time.\<close>

theorem second_completion_rejected_witness:
  "performAnalysis demo_env (run demo_env initial_state request_trace) 7 (abi_encode [3, 4]) [1]
     = Inr (run demo_env initial_state analysis_trace, [ResultDecrypted 1])
   \<and> performAnalysis demo_env (run demo_env initial_state analysis_trace) 7 (abi_encode [7, 12]) [1]
       = Inl AlreadyAnalyzed
   \<and> step demo_env (run demo_env initial_state analysis_trace)
         (relayer, PerformAnalysis 7 (abi_encode [7, 12]) [1])
       = run demo_env initial_state analysis_trace
   \<and> getAnalysisResult
         (step demo_env (run demo_env initial_state analysis_trace)
            (relayer, PerformAnalysis 7 (abi_encode [7, 12]) [1]))
         (requestToDatasetId (run demo_env initial_state request_trace) 7)
       = getAnalysisResult (run demo_env initial_state analysis_trace)
           (requestToDatasetId (run demo_env initial_state request_trace) 7)"
proof -
  have h: "performAnalysis demo_env (run demo_env initial_state request_trace) 7
             (abi_encode [3, 4]) [1]
           = Inr (run demo_env initial_state analysis_trace, [ResultDecrypted 1])"
    by (simp only: perform_3_4 analysis_state)
  from h second_completion_rejected [OF h refl] show ?thesis by (rule conjI)
qed

text \<open>
  The rejection lasts: from a state reached by transactions of accounts, after a
  successful completion for a request, the same request is rejected in every later state,
  whatever calls come in between, as long as the oracle does not issue its identifier
  again.
\<close>

lemma step_ids_in_range:
  assumes "ids_in_range s" "msg_sender (fst c) \<noteq> 0"
  shows "ids_in_range (step env s c)"
  using assms
  by (cases c; cases "snd c")
     (auto simp: ids_in_range_def step_def op_defs Let_def onlyInstitution_def le_SucI
        dest!: checked_add_one split: sum.splits if_splits option.splits)

lemma run_ids_in_range:
  "ids_in_range s \<Longrightarrow> \<forall>c\<in>set cs. msg_sender (fst c) \<noteq> 0 \<Longrightarrow> ids_in_range (run env s cs)"
  by (induction cs arbitrary: s) (simp_all add: step_ids_in_range)

lemma initial_ids_in_range: "ids_in_range initial_state"
  by (simp add: ids_in_range_def initial_state_def)

lemma step_analysed: "analysed s d \<Longrightarrow> analysed (step env s c) d"
  by (cases c; cases "snd c")
     (auto simp: analysed_def step_def op_defs Let_def
        dest!: checked_add_one split: sum.splits if_splits option.splits)

lemma run_analysed: "analysed s d \<Longrightarrow> analysed (run env s cs) d"
  by (induction cs arbitrary: s) (simp_all add: step_analysed)

lemma completion_stays_rejected:
  assumes senders: "\<forall>c\<in>set cs. msg_sender (fst c) \<noteq> 0"
    and ok: "performAnalysis env (run env initial_state cs) requestId cleartexts prf = Inr (s', evs)"
    and fresh: "requestId \<notin> set (concat (map (\<lambda>c. issued (snd c)) cs'))"
  shows "performAnalysis env (run env s' cs') requestId cleartexts' prf' = Inl AlreadyAnalyzed"
proof -
  let ?s = "run env initial_state cs"
  let ?d = "requestToDatasetId ?s requestId"
  have inv: "ids_in_range ?s"
    using initial_ids_in_range senders by (rule run_ids_in_range)
  from ok have d: "requestToDatasetId s' = requestToDatasetId ?s"
    and cnt: "datasetCount s' = datasetCount ?s"
    and nz: "?d \<noteq> 0"
    and rev: "isRevealed (analysisResults s' ?d)"
    by (auto simp: performAnalysis_def Let_def split: if_splits option.splits sum.splits)
  from inv have "unat ?d \<le> unat (datasetCount ?s)" by (simp add: ids_in_range_def)
  with rev cnt have "analysed s' ?d" by (simp add: analysed_def)
  then have "analysed (run env s' cs') ?d" by (rule run_analysed)
  then have rev': "isRevealed (analysisResults (run env s' cs') ?d)" by (simp add: analysed_def)
  have "requestToDatasetId (run env s' cs') requestId = requestToDatasetId s' requestId"
    using fresh
  proof (induction cs' arbitrary: s')
    case Nil
    show ?case by simp
  next
    case (Cons c cs')
    then show ?case by (simp add: step_keeps_entry)
  qed
  with d have "requestToDatasetId (run env s' cs') requestId = ?d" by simp
  with nz rev' show ?thesis by (simp add: performAnalysis_def)
qed

subsection \<open>The stored statistics\<close>

text \<open>
  Claim C7. Let \<open>genotype\<close> and \<open>phenotype\<close> be the first two words decoded from the
  cleartext. If \<open>performAnalysis\<close> succeeds, the sum and the product both fit in 32
  bits and the stored values are the encryptions of exactly \<open>genotype + phenotype\<close> and
  \<open>genotype * phenotype\<close>; if the sum or the product exceeds \<open>2^32 - 1\<close> the call
  reverts and the state stays as it was, with the arithmetic panic when the earlier checks
  pass.
\<close>

theorem analysis_arithmetic_exact:
  assumes dec: "abi_decode env cleartexts = Some vals"
    and g: "index_at vals 0 = Inr genotype"
    and p: "index_at vals 1 = Inr phenotype"
  shows "(performAnalysis env s requestId cleartexts prf = Inr (s', evs) \<longrightarrow>
            unat genotype + unat phenotype < 2 ^ 32
          \<and> unat genotype * unat phenotype < 2 ^ 32
          \<and> encryptedPValue (analysisResults s' (requestToDatasetId s requestId))
              = asEuint32 env (genotype + phenotype)
          \<and> unat (genotype + phenotype) = unat genotype + unat phenotype
          \<and> encryptedOddsRatio (analysisResults s' (requestToDatasetId s requestId))
              = asEuint32 env (genotype * phenotype)
          \<and> unat (genotype * phenotype) = unat genotype * unat phenotype)
       \<and> (2 ^ 32 \<le> unat genotype + unat phenotype \<or> 2 ^ 32 \<le> unat genotype * unat phenotype
            \<longrightarrow> (\<exists>e. performAnalysis env s requestId cleartexts prf = Inl e)
              \<and> step env s (ctx, PerformAnalysis requestId cleartexts prf) = s)
       \<and> (requestToDatasetId s requestId \<noteq> 0
            \<and> \<not> isRevealed (analysisResults s (requestToDatasetId s requestId))
            \<and> checkSignatures env requestId cleartexts prf
            \<and> (2 ^ 32 \<le> unat genotype + unat phenotype \<or> 2 ^ 32 \<le> unat genotype * unat phenotype)
            \<longrightarrow> performAnalysis env s requestId cleartexts prf = Inl PanicOverflow)"
proof (intro conjI impI)
  assume ok: "performAnalysis env s requestId cleartexts prf = Inr (s', evs)"
  from ok dec g p have a: "unat genotype + unat phenotype < 2 ^ 32"
    and m: "unat genotype * unat phenotype < 2 ^ 32"
    and s': "s' = s\<lparr> analysisResults := (analysisResults s)(requestToDatasetId s requestId :=
                      \<lparr> encryptedPValue = asEuint32 env (genotype + phenotype),
                        encryptedOddsRatio = asEuint32 env (genotype * phenotype),
                        isRevealed = True \<rparr>) \<rparr>"
    by (auto simp: performAnalysis_def Let_def calculatePValue_def calculateOddsRatio_def
        checked_add_def checked_mul_def split: if_splits)
  show "unat genotype + unat phenotype < 2 ^ 32" by (rule a)
  show "unat genotype * unat phenotype < 2 ^ 32" by (rule m)
  show "encryptedPValue (analysisResults s' (requestToDatasetId s requestId))
      = asEuint32 env (genotype + phenotype)" by (simp add: s')
  show "encryptedOddsRatio (analysisResults s' (requestToDatasetId s requestId))
      = asEuint32 env (genotype * phenotype)" by (simp add: s')
  show "unat (genotype + phenotype) = unat genotype + unat phenotype"
    using a by (simp add: unat_add_exact)
  show "unat (genotype * phenotype) = unat genotype * unat phenotype"
    using m by (simp add: unat_mul_exact)
next
  assume ov: "2 ^ 32 \<le> unat genotype + unat phenotype \<or> 2 ^ 32 \<le> unat genotype * unat phenotype"
  then show "\<exists>e. performAnalysis env s requestId cleartexts prf = Inl e"
    using dec g p
    by (auto simp: performAnalysis_def Let_def calculatePValue_def calculateOddsRatio_def
        checked_add_def checked_mul_def)
  then show "step env s (ctx, PerformAnalysis requestId cleartexts prf) = s"
    by (auto simp: step_def)
next
  assume "requestToDatasetId s requestId \<noteq> 0
            \<and> \<not> isRevealed (analysisResults s (requestToDatasetId s requestId))
            \<and> checkSignatures env requestId cleartexts prf
            \<and> (2 ^ 32 \<le> unat genotype + unat phenotype \<or> 2 ^ 32 \<le> unat genotype * unat phenotype)"
  then show "performAnalysis env s requestId cleartexts prf = Inl PanicOverflow"
    using dec g p
    by (auto simp: performAnalysis_def Let_def calculatePValue_def calculateOddsRatio_def
        checked_add_def checked_mul_def)
qed

text \<open>
  Genotype 3 and phenotype 4 give 7 and 12; genotype and phenotype 65536 have a product
  of \<open>2^32\<close> and the call panics.
\<close>

theorem analysis_arithmetic_exact_witness:
  "abi_decode demo_env (abi_encode [3, 4]) = Some [3, 4]
   \<and> index_at [3, 4 :: uint32] 0 = Inr 3
   \<and> index_at [3, 4 :: uint32] 1 = Inr 4
   \<and> performAnalysis demo_env (run demo_env initial_state request_trace) 7 (abi_encode [3, 4]) [1]
       = Inr (run demo_env initial_state analysis_trace, [ResultDecrypted 1])
   \<and> encryptedPValue (analysisResults (run demo_env initial_state analysis_trace)
         (requestToDatasetId (run demo_env initial_state request_trace) 7))
       = asEuint32 demo_env (3 + 4)
   \<and> encryptedOddsRatio (analysisResults (run demo_env initial_state analysis_trace)
         (requestToDatasetId (run demo_env initial_state request_trace) 7))
       = asEuint32 demo_env (3 * 4)
   \<and> abi_decode demo_env (abi_encode [65536, 65536]) = Some [65536, 65536]
   \<and> (2 :: nat) ^ 32 \<le> unat (65536 :: uint32) * unat (65536 :: uint32)
   \<and> performAnalysis demo_env (run demo_env initial_state request_trace) 7
         (abi_encode [65536, 65536]) [1]
       = Inl PanicOverflow"
proof -
  have d1: "abi_decode demo_env (abi_encode [3, 4]) = Some [3, 4]"
    by (simp add: demo_env_fields abi_decode_3_4)
  have g1: "index_at [3, 4 :: uint32] 0 = Inr 3" and p1: "index_at [3, 4 :: uint32] 1 = Inr 4"
    by (simp_all add: index_at_def)
  have ok: "performAnalysis demo_env (run demo_env initial_state request_trace) 7
             (abi_encode [3, 4]) [1]
           = Inr (run demo_env initial_state analysis_trace, [ResultDecrypted 1])"
    by (simp only: perform_3_4 analysis_state)
  note a = analysis_arithmetic_exact [OF d1 g1 p1,
      of "run demo_env initial_state request_trace" 7 "[1]"
         "run demo_env initial_state analysis_trace" "[ResultDecrypted 1]" relayer]
  from a ok have pv: "encryptedPValue (analysisResults (run demo_env initial_state analysis_trace)
         (requestToDatasetId (run demo_env initial_state request_trace) 7))
       = asEuint32 demo_env (3 + 4)"
    and orr: "encryptedOddsRatio (analysisResults (run demo_env initial_state analysis_trace)
         (requestToDatasetId (run demo_env initial_state request_trace) 7))
       = asEuint32 demo_env (3 * 4)"
    by blast+
  have d2: "abi_decode demo_env (abi_encode [65536, 65536]) = Some [65536, 65536]"
    by (simp add: demo_env_fields abi_decode_65536)
  have g2: "index_at [65536, 65536 :: uint32] 0 = Inr 65536"
    and p2: "index_at [65536, 65536 :: uint32] 1 = Inr 65536"
    by (simp_all add: index_at_def)
  have ov: "(2 :: nat) ^ 32 \<le> unat (65536 :: uint32) * unat (65536 :: uint32)"
    by simp
  have pre: "requestToDatasetId (run demo_env initial_state request_trace) 7 \<noteq> 0
      \<and> \<not> isRevealed (analysisResults (run demo_env initial_state request_trace)
             (requestToDatasetId (run demo_env initial_state request_trace) 7))
      \<and> checkSignatures demo_env 7 (abi_encode [65536, 65536]) [1]"
    by (simp add: request_state_fields demo_env_fields)
  note b = analysis_arithmetic_exact [OF d2 g2 p2,
      of "run demo_env initial_state request_trace" 7 "[1]" initial_state "[]" relayer]
  from b ov pre have pn: "performAnalysis demo_env (run demo_env initial_state request_trace) 7
         (abi_encode [65536, 65536]) [1] = Inl PanicOverflow"
    by blast
  from d1 g1 p1 ok pv orr d2 ov pn show ?thesis by blast
qed

section \<open>Properties of the client synchronizer\<close>

subsection \<open>Auxiliary facts\<close>

lemma set_insert_by: "set (insert_by cmp x ys) = insert x (set ys)"
  by (induction ys) auto

lemma set_js_sort: "set (js_sort cmp xs) = set xs"
  by (induction xs) (simp_all add: js_sort_def set_insert_by)






lemma load_one_cases:
  "fst (load_one env ch k) =
     (if getData ch (''gwas_'' @ to_string k) = [] then []
      else case JSON_parse env (getData ch (''gwas_'' @ to_string k)) of
             None \<Rightarrow> []
           | Some d \<Rightarrow> if d = JNull then [] else [record_of k d])"
  by (auto simp: load_one_def Let_def split: option.splits json.splits)


lemma set_load_all:
  "set (fst (load_all env ch keys)) = (\<Union>k\<in>set keys. set (fst (load_one env ch k)))"
  by (induction keys) simp_all



lemma loadDatasets_iterable:
  assumes "readonly_contract ch" "isAvailable ch"
    and "iterate (fst (parse_keys env ''Error parsing dataset keys:'' (getData ch ''gwas_keys''))) = Some keys"
  shows "loadDatasets env ch old =
     (js_sort (compare_timestamp env) (fst (load_all env ch keys)),
      snd (parse_keys env ''Error parsing dataset keys:'' (getData ch ''gwas_keys''))
        @ snd (load_all env ch keys))"
  using assms by (simp add: loadDatasets_def Let_def)

lemma loadDatasets_records:
  assumes "readonly_contract ch" "isAvailable ch"
    and "iterate (fst (parse_keys env ''Error parsing dataset keys:'' (getData ch ''gwas_keys''))) = Some keys"
  shows "set (fst (loadDatasets env ch old)) = (\<Union>k\<in>set keys. set (fst (load_one env ch k)))"
  by (simp add: loadDatasets_iterable [OF assms] set_js_sort set_load_all)

lemma loadDatasets_origin:
  assumes "readonly_contract ch" "isAvailable ch"
    and "iterate (fst (parse_keys env ''Error parsing dataset keys:'' (getData ch ''gwas_keys''))) = Some keys"
    and "x \<in> set (fst (loadDatasets env ch old))"
  shows "\<exists>k\<in>set keys. \<exists>d. JSON_parse env (getData ch (''gwas_'' @ to_string k)) = Some d
             \<and> x = record_of k d"
proof -
  from assms(4) loadDatasets_records [OF assms(1-3), of old]
  obtain k where k: "k \<in> set keys" "x \<in> set (fst (load_one env ch k))" by auto
  from k(2) have "\<exists>d. JSON_parse env (getData ch (''gwas_'' @ to_string k)) = Some d
             \<and> x = record_of k d"
    by (cases "JSON_parse env (getData ch (''gwas_'' @ to_string k))")
       (auto simp: load_one_cases split: if_splits)
  with k(1) show ?thesis by blast
qed


lemma digit_char_range: "n < 10 \<Longrightarrow> of_char (digit_char n) \<in> {48 .. (57::nat)}"
proof -
  assume "n < 10"
  then have "n \<in> {0, 1, 2, 3, 4, 5, 6, 7, 8, 9}" by auto
  then show ?thesis by (auto simp: digit_char_def)
qed

lemma show_nat_head:
  "show_nat n \<noteq> [] \<and> of_char (hd (show_nat n)) \<in> {48 .. (57::nat)}"
proof (induction n rule: show_nat.induct)
  case (1 n)
  show ?case
  proof (cases "n < 10")
    case True
    then show ?thesis using digit_char_range [of n] by (subst (1 2) show_nat.simps) simp
  next
    case False
    with 1 have ih: "show_nat (n div 10) \<noteq> []"
      "of_char (hd (show_nat (n div 10))) \<in> {48 .. (57::nat)}" by simp_all
    from False have "show_nat n = show_nat (n div 10) @ [digit_char (n mod 10)]"
      by (subst show_nat.simps) simp
    with ih show ?thesis by simp
  qed
qed

lemma dataset_id_not_keys: "dataset_id now rnd \<noteq> ''keys''"
proof
  assume "dataset_id now rnd = ''keys''"
  then have "hd (show_nat now @ ''-'' @ rnd) = CHR ''k''" by (simp add: dataset_id_def)
  then have "hd (show_nat now) = CHR ''k''" using show_nat_head [of now] by simp
  then have "of_char (hd (show_nat now)) = (107::nat)" by simp
  with show_nat_head [of now] show False by simp
qed

lemma fst_parse_keys: "fst (parse_keys env m1 b) = fst (parse_keys env m2 b)"
  by (simp add: parse_keys_def split: option.splits)



subsection \<open>Concrete runs of the synchronizer\<close>

lemma demo_js_fields:
  "JSON_parse demo_js = demo_parse"
  "JSON_stringify demo_js = demo_stringify"
  "btoa demo_js s = Some (b64_encode (map of_char s))"
  "string_to_number demo_js = demo_string_to_number"
  by (simp_all add: demo_js_def)

lemma store_of_fields:
  "readonly_contract (store_of kvs)" "signer_contract (store_of kvs)" "isAvailable (store_of kvs)"
  "getData (store_of kvs) key = (case map_of kvs key of None \<Rightarrow> [] | Some v \<Rightarrow> v)"
  by (simp_all add: store_of_def getData_def)

lemmas parse_eval = demo_parse_def read_number_def read_unsigned_def is_digit_def
  digits_to_nat_def add_member_def



lemma parse_mixed_records:
  "demo_parse ''{\"timestamp\":1,\"institution\":\"0xabc\"}''
     = Some (JObj [(''timestamp'', JNum 1), (''institution'', JStr ''0xabc'')])"
  "demo_parse ''{\"timestamp\":'' = None"
  "demo_parse ''{\"timestamp\":2,\"status\":\"processed\"}''
     = Some (JObj [(''timestamp'', JNum 2), (''status'', JStr ''processed'')])"
  "demo_parse ''[\"a\"'' = None"
  by (simp_all add: parse_eval)

lemmas load_eval = loadDatasets_def parse_keys_def load_one_def Let_def js_sort_def
  compare_timestamp_def record_of_def demo_js_fields store_of_fields




lemma show_nat_numeral:
  "show_nat (numeral k) =
     (if numeral k < (10::nat) then [digit_char (numeral k)]
      else show_nat (numeral k div 10) @ [digit_char (numeral k mod 10)])"
  by (subst show_nat.simps) simp

lemma show_nat_0: "show_nat 0 = ''0''"
  by (subst show_nat.simps) (simp add: digit_char_def)

lemma show_nat_1: "show_nat (Suc 0) = ''1''"
  by (subst show_nat.simps) (simp add: digit_char_def)

lemmas show_nat_eval = show_nat_numeral show_nat_0 show_nat_1 digit_char_def

lemma demo_id: "dataset_id 1700000000123 ''k3j9x2q'' = ''1700000000123-k3j9x2q''"
  by (simp add: dataset_id_def show_nat_eval)

lemma demo_b64:
  "b64_encode (map of_char (demo_stringify (new_dataset_json demo_dataset)))
     = ''eyJzdHVkeVR5cGUiOiJUMkQiLCJkZXNjcmlwdGlvbiI6ImNvaG9ydCIsImdlbm9taWNEYXRhIjoiQUNHVCJ9''"
  by code_simp


lemma demo_index_roundtrips:
  "roundtrips demo_js
     (JArr ([JStr ''a'', JStr ''b'', JStr ''c''] @ [JStr (dataset_id 1700000000123 ''k3j9x2q'')]))"
  "roundtrips demo_js (JArr [JStr (dataset_id 1700000000123 ''k3j9x2q'')])"
  unfolding roundtrips_def demo_js_fields demo_id
  by (simp_all add: quote_def parse_eval)


lemma corrupt_chain_facts:
  "readonly_contract corrupt_index_chain" "isAvailable corrupt_index_chain"
  "signer_contract corrupt_index_chain"
  "getData corrupt_index_chain ''gwas_keys'' = ''[\"a\"''"
  by (simp_all add: corrupt_index_chain_def store_of_fields)

subsection \<open>Listing\<close>




subsection \<open>Upload, then list\<close>



subsection \<open>Upload over an index that does not parse\<close>

text \<open>
  Claim C10. If the stored index is not empty and fails to parse when \<open>uploadDataset\<close>
  runs (wallet connected, signer contract present, \<open>btoa\<close> succeeding), the upload
  succeeds and writes back an index that holds only the new identifier. Every other key
  of the store keeps its value, so the records indexed before stay stored; but a
  following \<open>loadDatasets\<close> lists only records of the new identifier.
\<close>

theorem upload_over_unparseable_index:
  assumes pr: "provider" and sg: "signer_contract ch"
    and b64: "btoa env (JSON_stringify env (new_dataset_json newDataset)) = Some b64"
    and ne: "getData ch ''gwas_keys'' \<noteq> []"
    and bad: "JSON_parse env (getData ch ''gwas_keys'') = None"
    and res: "uploadDataset env provider account newDataset now_id rnd now_ts ch old
                = (st, ch', list', lg)"
  shows "st = UploadSuccess
       \<and> getData ch' ''gwas_keys'' = JSON_stringify env (JArr [JStr (dataset_id now_id rnd)])
       \<and> getData ch' (''gwas_'' @ dataset_id now_id rnd)
           = JSON_stringify env (dataset_json (''FHE-GWAS-'' @ b64) now_ts account newDataset)
       \<and> (\<forall>k. k \<noteq> ''gwas_keys'' \<and> k \<noteq> ''gwas_'' @ dataset_id now_id rnd
              \<longrightarrow> getData ch' k = getData ch k)
       \<and> (roundtrips env (JArr [JStr (dataset_id now_id rnd)])
            \<and> readonly_contract ch \<and> isAvailable ch
            \<longrightarrow> (\<forall>x\<in>set (fst (loadDatasets env ch' old')).
                    rec_id x = JStr (dataset_id now_id rnd)))"
proof -
  let ?id = "dataset_id now_id rnd"
  let ?rec = "dataset_json (''FHE-GWAS-'' @ b64) now_ts account newDataset"
  from res pr sg b64 ne bad dataset_id_not_keys [of now_id rnd]
  have st: "st = UploadSuccess"
    and ch': "ch' = setData (setData ch (''gwas_'' @ ?id) (JSON_stringify env ?rec))
                    ''gwas_keys'' (JSON_stringify env (JArr [JStr ?id]))"
    by (simp_all add: uploadDataset_def Let_def getData_def setData_def parse_keys_def)
  have idx: "getData ch' ''gwas_keys'' = JSON_stringify env (JArr [JStr ?id])"
    by (simp add: ch' getData_def setData_def)
  have rec: "getData ch' (''gwas_'' @ ?id) = JSON_stringify env ?rec"
    using dataset_id_not_keys [of now_id rnd] by (simp add: ch' getData_def setData_def)
  have rest: "\<forall>k. k \<noteq> ''gwas_keys'' \<and> k \<noteq> ''gwas_'' @ ?id \<longrightarrow> getData ch' k = getData ch k"
    by (simp add: ch' getData_def setData_def)
  have only: "\<forall>x\<in>set (fst (loadDatasets env ch' old')). rec_id x = JStr ?id"
    if rt: "roundtrips env (JArr [JStr ?id]) \<and> readonly_contract ch \<and> isAvailable ch"
  proof
    fix x assume x: "x \<in> set (fst (loadDatasets env ch' old'))"
    have ro': "readonly_contract ch'" and av': "isAvailable ch'"
      using rt by (simp_all add: ch' setData_def)
    have it: "iterate (fst (parse_keys env ''Error parsing dataset keys:''
              (getData ch' ''gwas_keys''))) = Some [JStr ?id]"
      using rt by (simp add: idx parse_keys_def roundtrips_def)
    from loadDatasets_origin [OF ro' av' it x]
    obtain k d where "k \<in> set [JStr ?id]" "x = record_of k d" by blast
    then show "rec_id x = JStr ?id" by (simp add: record_of_def)
  qed
  from st idx rec rest only show ?thesis by blast
qed

text \<open>The upload of \<open>demo_upload\<close> onto the store whose index is cut off.\<close>

theorem upload_over_unparseable_index_witness:
  "signer_contract corrupt_index_chain
   \<and> getData corrupt_index_chain ''gwas_keys'' \<noteq> []
   \<and> JSON_parse demo_js (getData corrupt_index_chain ''gwas_keys'') = None
   \<and> fst (demo_upload corrupt_index_chain) = UploadSuccess
   \<and> getData (fst (snd (demo_upload corrupt_index_chain))) ''gwas_keys''
       = JSON_stringify demo_js (JArr [JStr (dataset_id 1700000000123 ''k3j9x2q'')])
   \<and> getData (fst (snd (demo_upload corrupt_index_chain))) ''gwas_a''
       = getData corrupt_index_chain ''gwas_a''
   \<and> list_all (\<lambda>x. rec_id x = JStr (dataset_id 1700000000123 ''k3j9x2q''))
        (fst (loadDatasets demo_js (fst (snd (demo_upload corrupt_index_chain))) []))"
proof -
  have b64: "btoa demo_js (JSON_stringify demo_js (new_dataset_json demo_dataset))
      = Some ''eyJzdHVkeVR5cGUiOiJUMkQiLCJkZXNjcmlwdGlvbiI6ImNvaG9ydCIsImdlbm9taWNEYXRhIjoiQUNHVCJ9''"
    by (simp only: demo_js_fields demo_b64)
  have ne: "getData corrupt_index_chain ''gwas_keys'' \<noteq> []"
    and bad: "JSON_parse demo_js (getData corrupt_index_chain ''gwas_keys'') = None"
    by (simp_all add: corrupt_chain_facts demo_js_fields parse_mixed_records)
  have res: "uploadDataset demo_js True ''0xabc'' demo_dataset 1700000000123 ''k3j9x2q''
        1700000000456 corrupt_index_chain []
      = (fst (demo_upload corrupt_index_chain), fst (snd (demo_upload corrupt_index_chain)),
         fst (snd (snd (demo_upload corrupt_index_chain))),
         snd (snd (snd (demo_upload corrupt_index_chain))))"
    unfolding demo_upload_def by (simp only: prod.collapse)
  note t = upload_over_unparseable_index [OF TrueI corrupt_chain_facts(3) b64 ne bad res, of "[]"]
  have other: "''gwas_a'' \<noteq> ''gwas_keys''
      \<and> ''gwas_a'' \<noteq> ''gwas_'' @ dataset_id 1700000000123 ''k3j9x2q''"
    by (simp add: demo_id)
  have rt: "roundtrips demo_js (JArr [JStr (dataset_id 1700000000123 ''k3j9x2q'')])
      \<and> readonly_contract corrupt_index_chain \<and> isAvailable corrupt_index_chain"
    by (simp add: demo_index_roundtrips corrupt_chain_facts)
  note st = t [THEN conjunct1]
  note idx = t [THEN conjunct2, THEN conjunct1]
  note rest = t [THEN conjunct2, THEN conjunct2, THEN conjunct2, THEN conjunct1, rule_format]
  note only_new = t [THEN conjunct2, THEN conjunct2, THEN conjunct2, THEN conjunct2, rule_format]
  have old: "getData (fst (snd (demo_upload corrupt_index_chain))) ''gwas_a''
       = getData corrupt_index_chain ''gwas_a''"
    by (rule rest [OF other])
  have "\<forall>x\<in>set (fst (loadDatasets demo_js (fst (snd (demo_upload corrupt_index_chain))) [])).
      rec_id x = JStr (dataset_id 1700000000123 ''k3j9x2q'')"
    using only_new [OF rt] by (rule ballI)
  then have only: "list_all (\<lambda>x. rec_id x = JStr (dataset_id 1700000000123 ''k3j9x2q''))
        (fst (loadDatasets demo_js (fst (snd (demo_upload corrupt_index_chain))) []))"
    by (simp only: list_all_iff)
  from corrupt_chain_facts(3) ne bad st idx old only show ?thesis by (intro conjI)
qed

end
